theory Spec2Isabelle
  imports Complex_Main "HOL-Library.Sublist"
begin

section \<open>Strings and key normalisation (viewer.js, normalizeLabel and slugify)\<close>

text \<open>
  A JavaScript string is a sequence of UTF-16 code units; a code unit is a natural number
  (below \<open>65536\<close> in a string of the program). A literal is written \<open>str ''abc''\<close>.
\<close>

type_synonym jsstring = "nat list"

definition str :: "string \<Rightarrow> jsstring" where
  "str s = map of_char s"

text \<open>
  The white space of \<open>String.prototype.trim\<close> and of the regular expression class \<open>\s\<close>:
  TAB, LF, VT, FF, CR, SPACE, NBSP, U+1680, U+2000 to U+200A, LS, PS, U+202F, U+205F,
  U+3000 and the byte order mark U+FEFF.
\<close>

definition isWhiteSpace :: "nat \<Rightarrow> bool" where
  "isWhiteSpace u =
     (u \<in> {9, 10, 11, 12, 13, 32, 160, 0x1680, 0x2028, 0x2029, 0x202F, 0x205F, 0x3000, 0xFEFF}
      \<or> (0x2000 \<le> u \<and> u \<le> 0x200A))"

text \<open>
  The regular expression \<open>.\<close> (no \<open>s\<close> flag) matches every code unit but a line
  terminator: LF, CR, LS, PS.
\<close>

definition isLineTerminator :: "nat \<Rightarrow> bool" where
  "isLineTerminator u = (u \<in> {10, 13, 0x2028, 0x2029})"

text \<open>
  What the program takes from its host: \<open>String.prototype.toLowerCase\<close>, which maps a
  string to a string (a code unit may become several, and the result may depend on the
  neighbours), and \<open>String.prototype.localeCompare\<close>. Everything that lowers or sorts
  takes the host \<open>H\<close> as a parameter.
\<close>

record host =
  toLowerCase :: "jsstring \<Rightarrow> jsstring"
  localeCompare :: "jsstring \<Rightarrow> jsstring \<Rightarrow> int"

text \<open>The character class \<open>[a-z0-9]\<close>.\<close>

definition isSlugChar :: "nat \<Rightarrow> bool" where
  "isSlugChar u = ((97 \<le> u \<and> u \<le> 122) \<or> (48 \<le> u \<and> u \<le> 57))"

text \<open>\<open>String.prototype.trim\<close>: white space is removed at both ends.\<close>

definition trim :: "jsstring \<Rightarrow> jsstring" where
  "trim s = rev (dropWhile isWhiteSpace (rev (dropWhile isWhiteSpace s)))"

text \<open>
  \<open>s.replace(/C+/g, r)\<close> for a character class \<open>C\<close>: every maximal run of code units of
  the class is replaced by the one code unit \<open>r\<close>.
\<close>

function replaceRuns :: "(nat \<Rightarrow> bool) \<Rightarrow> nat \<Rightarrow> jsstring \<Rightarrow> jsstring" where
  "replaceRuns P r [] = []"
| "replaceRuns P r (c # cs) =
     (if P c then r # replaceRuns P r (dropWhile P cs) else c # replaceRuns P r cs)"
  by pat_completeness auto
termination
  by (relation "measure (\<lambda>(P, r, s). length s)")
     (auto simp: length_dropWhile_le less_Suc_eq_le)

text \<open>
  Matching under the \<open>i\<close> flag without the \<open>u\<close> flag compares the upper-case forms of
  single code units, and a code unit outside ASCII is never taken for an ASCII one. So an
  ASCII letter of a pattern matches that letter in either case and nothing else:
  \<open>asciiLower\<close> of the code unit is the lower-case letter.
\<close>

definition asciiLower :: "nat \<Rightarrow> nat" where
  "asciiLower u = (if 65 \<le> u \<and> u \<le> 90 then u + 32 else u)"

text \<open>A case-insensitive literal at the end of the input (\<open>/lit$/i\<close>, \<open>lit\<close> in lower case).\<close>

definition endsWithCI :: "jsstring \<Rightarrow> jsstring \<Rightarrow> bool" where
  "endsWithCI s lit =
     (length lit \<le> length s \<and> map asciiLower (drop (length s - length lit) s) = lit)"

text \<open>
  \<open>s.replace(/(Model|Geometry)$/i, '')\<close>: one match at most, anchored at the end; the two
  alternatives end in different letters, so at most one of them applies.
\<close>

definition stripExporterSuffix :: "jsstring \<Rightarrow> jsstring" where
  "stripExporterSuffix s =
     (if endsWithCI s (str ''model'') then take (length s - 5) s
      else if endsWithCI s (str ''geometry'') then take (length s - 8) s
      else s)"

text \<open>
  \<open>s.match(/^(.*)\.([lrj])$/i)\<close>: the last two code units are a dot (46) and one of
  \<open>l r j L R J\<close> (in lower case 108, 114, 106), and the text before them, the first group,
  holds no line terminator. The result is the first group.
\<close>

definition matchSideSuffix :: "jsstring \<Rightarrow> jsstring option" where
  "matchSideSuffix s =
     (if 2 \<le> length s
         \<and> s ! (length s - 2) = 46
         \<and> asciiLower (s ! (length s - 1)) \<in> {108, 114, 106}
         \<and> \<not> list_ex isLineTerminator (take (length s - 2) s)
      then Some (take (length s - 2) s) else None)"

text \<open>\<open>normalizeLabel\<close>; NUL is the code unit 0 and the space that replaces a run is 32.\<close>

definition normalizeLabel :: "jsstring \<Rightarrow> jsstring" where
  "normalizeLabel raw =
     (let s1 = trim (filter (\<lambda>c. c \<noteq> 0) raw)
      in if s1 = [] then []
         else let s2 = trim (stripExporterSuffix s1);
                  s3 = (case matchSideSuffix s2 of Some g \<Rightarrow> trim g | None \<Rightarrow> s2)
              in trim (replaceRuns isWhiteSpace 32 s3))"

text \<open>
  \<open>.replace(/^_+|_+$/g, '')\<close>: the underscores (95) at the start and at the end go.
\<close>

definition stripUnderscores :: "jsstring \<Rightarrow> jsstring" where
  "stripUnderscores s = rev (dropWhile (\<lambda>c. c = 95) (rev (dropWhile (\<lambda>c. c = 95) s)))"

definition slugify :: "host \<Rightarrow> jsstring \<Rightarrow> jsstring" where
  "slugify H raw =
     stripUnderscores
       (replaceRuns (\<lambda>c. \<not> isSlugChar c) 95 (toLowerCase H (normalizeLabel raw)))"

definition partKeyFromName :: "host \<Rightarrow> jsstring \<Rightarrow> jsstring" where
  "partKeyFromName H rawName = slugify H rawName"

text \<open>A key ends in an exporter suffix when \<open>stripExporterSuffix\<close> would shorten it.\<close>

definition hasExporterSuffix :: "jsstring \<Rightarrow> bool" where
  "hasExporterSuffix s = (endsWithCI s (str ''model'') \<or> endsWithCI s (str ''geometry''))"

text \<open>
  The canonical keys: code units of \<open>[a-z0-9_]\<close>, no two underscores in a row, none at
  either end.
\<close>

definition isKeyChar :: "nat \<Rightarrow> bool" where
  "isKeyChar c = (isSlugChar c \<or> c = 95)"

definition isCanonicalKey :: "jsstring \<Rightarrow> bool" where
  "isCanonicalKey s =
     (list_all isKeyChar s \<and> \<not> sublist [95, 95] s
      \<and> (s = [] \<or> (hd s \<noteq> 95 \<and> last s \<noteq> 95)))"

text \<open>
  The one property of \<open>toLowerCase\<close> that idempotence rests on: a string of lower-case
  ASCII letters, digits and underscores is already in lower case.
\<close>

definition keepsKeys :: "host \<Rightarrow> bool" where
  "keepsKeys H = (\<forall>t. list_all isKeyChar t \<longrightarrow> toLowerCase H t = t)"

text \<open>
  A host for concrete evaluation: it lowers the letters of ASCII and Latin-1, which is
  \<open>toLowerCase\<close> on every string of code units below 256, and compares by code units.
\<close>

definition latin1Lower :: "nat \<Rightarrow> nat" where
  "latin1Lower u =
     (if (65 \<le> u \<and> u \<le> 90) \<or> (192 \<le> u \<and> u \<le> 222 \<and> u \<noteq> 215) then u + 32 else u)"

fun codeUnitCompare :: "jsstring \<Rightarrow> jsstring \<Rightarrow> int" where
  "codeUnitCompare [] [] = 0"
| "codeUnitCompare [] (b # bs) = - 1"
| "codeUnitCompare (a # as) [] = 1"
| "codeUnitCompare (a # as) (b # bs) =
     (if a < b then - 1 else if b < a then 1 else codeUnitCompare as bs)"

definition exampleHost :: host where
  "exampleHost = \<lparr>toLowerCase = map latin1Lower, localeCompare = codeUnitCompare\<rparr>"

text \<open>\<open>String.prototype.includes\<close>: the argument occurs as a contiguous substring.\<close>

definition str_includes :: "jsstring \<Rightarrow> jsstring \<Rightarrow> bool" where
  "str_includes s q = sublist q s"

section \<open>JavaScript sets and sorting\<close>

text \<open>
  A JavaScript \<open>Set\<close> is a duplicate-free list in insertion order: \<open>add\<close> appends a new
  element and leaves the set alone when the element is present, \<open>delete\<close> removes it,
  iteration follows the list.
\<close>

definition set_has :: "'a list \<Rightarrow> 'a \<Rightarrow> bool" where
  "set_has xs x = (x \<in> set xs)"

definition set_add :: "'a list \<Rightarrow> 'a \<Rightarrow> 'a list" where
  "set_add xs x = (if x \<in> set xs then xs else xs @ [x])"

definition set_delete :: "'a list \<Rightarrow> 'a \<Rightarrow> 'a list" where
  "set_delete xs x = removeAll x xs"

text \<open>
  \<open>Array.prototype.sort(cmp)\<close> is stable: \<open>a\<close> comes before \<open>b\<close> when \<open>cmp a b < 0\<close>, and
  elements that compare equal keep their order. The comparison of the host,
  \<open>localeCompare\<close>, comes with the host \<open>H\<close>.
\<close>

fun insertBy :: "('a \<Rightarrow> 'a \<Rightarrow> int) \<Rightarrow> 'a \<Rightarrow> 'a list \<Rightarrow> 'a list" where
  "insertBy cmp x [] = [x]"
| "insertBy cmp x (y # ys) = (if cmp x y \<le> 0 then x # y # ys else y # insertBy cmp x ys)"

definition sortBy :: "('a \<Rightarrow> 'a \<Rightarrow> int) \<Rightarrow> 'a list \<Rightarrow> 'a list" where
  "sortBy cmp xs = foldr (insertBy cmp) xs []"

text \<open>What a comparison has to satisfy for \<open>sort\<close> to have a defined result.\<close>

definition consistentComparator :: "('a \<Rightarrow> 'a \<Rightarrow> int) \<Rightarrow> bool" where
  "consistentComparator cmp =
     ((\<forall>a b. (cmp a b \<le> 0) \<or> (cmp b a \<le> 0))
      \<and> (\<forall>a b c. cmp a b \<le> 0 \<and> cmp b c \<le> 0 \<longrightarrow> cmp a c \<le> 0))"

fun sortedBy :: "('a \<Rightarrow> 'a \<Rightarrow> int) \<Rightarrow> 'a list \<Rightarrow> bool" where
  "sortedBy cmp [] = True"
| "sortedBy cmp (x # xs) = ((\<forall>y \<in> set xs. cmp x y \<le> 0) \<and> sortedBy cmp xs)"

section \<open>The system catalogue (viewer.js, SYSTEMS)\<close>

record system_config =
  label :: jsstring
  fbx :: jsstring
  groups :: jsstring

definition SYSTEMS_own :: "(jsstring \<times> system_config) list" where
  "SYSTEMS_own =
    [(str ''bones'',   \<lparr>label = str ''Bones'',   fbx = str ''./assets/bones.fbx'',   groups = str ''./meta/bones_groups.json''\<rparr>),
     (str ''muscles'', \<lparr>label = str ''Muscles'', fbx = str ''./assets/muscles.fbx'', groups = str ''./meta/muscles_groups.json''\<rparr>),
     (str ''nerves'',  \<lparr>label = str ''Nerves'',  fbx = str ''./assets/nerves.fbx'',  groups = str ''./meta/nerves_groups.json''\<rparr>),
     (str ''vessels'', \<lparr>label = str ''Vessels'', fbx = str ''./assets/vessels.fbx'', groups = str ''./meta/vessels_groups.json''\<rparr>),
     (str ''organs'',  \<lparr>label = str ''Organs'',  fbx = str ''./assets/organs.fbx'',  groups = str ''./meta/organs_groups.json''\<rparr>)]"

text \<open>
  \<open>SYSTEMS\<close> is an object literal, so \<open>SYSTEMS[key]\<close> looks the key up among its own
  properties and then on \<open>Object.prototype\<close>, whose properties are functions (and, for
  \<open>__proto__\<close>, the prototype object): all of them truthy, none with a \<open>label\<close>, \<open>fbx\<close> or
  \<open>groups\<close> property.
\<close>

definition objectPrototypeKeys :: "jsstring list" where
  "objectPrototypeKeys =
    [str ''constructor'', str ''toString'', str ''toLocaleString'', str ''valueOf'', str ''hasOwnProperty'',
     (str ''isPrototypeOf''), str ''propertyIsEnumerable'', str ''__proto__'', str ''__defineGetter__'',
     (str ''__defineSetter__''), str ''__lookupGetter__'', str ''__lookupSetter__'']"

datatype property = OwnSystem system_config | Inherited

definition SYSTEMS :: "jsstring \<Rightarrow> property option" where
  "SYSTEMS k =
     (case map_of SYSTEMS_own k of
        Some c \<Rightarrow> Some (OwnSystem c)
      | None \<Rightarrow> if k \<in> set objectPrototypeKeys then Some Inherited else None)"

text \<open>\<open>sys.label\<close>, \<open>sys.groups\<close>, \<open>sys.fbx\<close>: \<open>None\<close> stands for \<open>undefined\<close>.\<close>

fun labelOf :: "property \<Rightarrow> jsstring option" where
  "labelOf (OwnSystem c) = Some (label c)"
| "labelOf Inherited = None"

fun groupsOf :: "property \<Rightarrow> jsstring option" where
  "groupsOf (OwnSystem c) = Some (groups c)"
| "groupsOf Inherited = None"

fun fbxOf :: "property \<Rightarrow> jsstring option" where
  "fbxOf (OwnSystem c) = Some (fbx c)"
| "fbxOf Inherited = None"

section \<open>The group index (viewer.js, buildGroupIndex)\<close>

text \<open>
  The metadata is the list \<open>Object.entries(groupsJson || {})\<close>. A value holds a name when its
  \<open>name\<close> property is a string, and variants when its \<open>variants\<close> property is an object: the
  values of that object, each an array or something else. A value that is \<open>null\<close> or no
  object has neither. An element of such an array is a string, \<open>null\<close>, or another
  JSON value, which is given by the text that \<open>String\<close> makes of it.
\<close>

datatype raw_name = RawString jsstring | RawNull | RawOther jsstring

text \<open>\<open>String(raw ?? '')\<close>.\<close>

fun rawText :: "raw_name \<Rightarrow> jsstring" where
  "rawText (RawString s) = s"
| "rawText RawNull = []"
| "rawText (RawOther s) = s"

datatype variant_list = RawNames "raw_name list" | NotAnArray

record meta_value =
  meta_name :: "jsstring option"
  variants :: "(jsstring \<times> variant_list) list option"

type_synonym metadata = "(jsstring \<times> meta_value) list"

record group =
  key :: jsstring
  name :: jsstring
  meshKeys :: "jsstring list"

type_synonym group_index = "(jsstring \<times> group) list"

definition displayName :: "jsstring \<Rightarrow> meta_value \<Rightarrow> jsstring" where
  "displayName k v =
     (case meta_name v of
        Some n \<Rightarrow> if trim n \<noteq> [] then trim n else k
      | None \<Rightarrow> k)"

fun addRawNames :: "host \<Rightarrow> jsstring list \<Rightarrow> raw_name list \<Rightarrow> jsstring list" where
  "addRawNames H ms [] = ms"
| "addRawNames H ms (raw # raws) =
     (let mk = slugify H (rawText raw)
      in addRawNames H (if mk \<noteq> [] then set_add ms mk else ms) raws)"

fun addVariants ::
  "host \<Rightarrow> jsstring list \<Rightarrow> (jsstring \<times> variant_list) list \<Rightarrow> jsstring list" where
  "addVariants H ms [] = ms"
| "addVariants H ms ((tag, NotAnArray) # vs) = addVariants H ms vs"
| "addVariants H ms ((tag, RawNames arr) # vs) = addVariants H (addRawNames H ms arr) vs"

definition entryMeshKeys :: "host \<Rightarrow> jsstring \<Rightarrow> meta_value \<Rightarrow> jsstring list" where
  "entryMeshKeys H groupKey v =
     set_add (case variants v of Some vs \<Rightarrow> addVariants H [] vs | None \<Rightarrow> []) groupKey"

text \<open>\<open>for (const mk of meshKeys) g.meshKeys.add(mk)\<close> on the group stored under the key.\<close>

fun mergeInto :: "jsstring \<Rightarrow> jsstring list \<Rightarrow> group_index \<Rightarrow> group_index" where
  "mergeInto k mks [] = []"
| "mergeInto k mks ((k', g) # idx) =
     (if k' = k then (k', g\<lparr>meshKeys := foldl set_add (meshKeys g) mks\<rparr>) # idx
      else (k', g) # mergeInto k mks idx)"

text \<open>The body of the loop over the entries, and the loop.\<close>

definition addEntry :: "host \<Rightarrow> group_index \<Rightarrow> jsstring \<times> meta_value \<Rightarrow> group_index" where
  "addEntry H idx e =
     (let nm = displayName (fst e) (snd e); groupKey = slugify H nm
      in if groupKey = [] then idx
         else let mks = entryMeshKeys H groupKey (snd e)
              in if map_of idx groupKey = None
                 then idx @ [(groupKey, \<lparr>key = groupKey, name = nm, meshKeys = mks\<rparr>)]
                 else mergeInto groupKey mks idx)"

definition buildGroupIndex :: "host \<Rightarrow> metadata \<Rightarrow> group_index" where
  "buildGroupIndex H groupsJson = foldl (addEntry H) [] groupsJson"

section \<open>Selection (viewer.js, computeSelectedMeshKeys)\<close>

fun expandInto :: "group_index \<Rightarrow> jsstring list \<Rightarrow> jsstring list \<Rightarrow> jsstring list" where
  "expandInto idx out [] = out"
| "expandInto idx out (gk # gks) =
     (case map_of idx gk of
        Some g \<Rightarrow>
          if meshKeys g \<noteq> [] then expandInto idx (foldl set_add out (meshKeys g)) gks
          else expandInto idx (set_add out gk) gks
      | None \<Rightarrow> expandInto idx (set_add out gk) gks)"

definition computeSelectedMeshKeys :: "group_index \<Rightarrow> jsstring list \<Rightarrow> jsstring list" where
  "computeSelectedMeshKeys idx selected = expandInto idx [] selected"

text \<open>
  The member set that the specification gives a selected key: the members of its group,
  the key alone when it has no group.
\<close>

definition memberSetOf :: "group_index \<Rightarrow> jsstring \<Rightarrow> jsstring set" where
  "memberSetOf idx gk = (case map_of idx gk of Some g \<Rightarrow> set (meshKeys g) | None \<Rightarrow> {gk})"

section \<open>Materials and their snapshots (viewer.js, snapshotMaterial and setMeshState)\<close>

text \<open>
  A material holds the properties that the viewer reads and writes. A colour is identified
  by a number (for a colour set from a hex literal, that literal); \<open>None\<close> stands for a
  material without the colour, without a numeric opacity, or without the depth property.
\<close>

record material =
  color :: "nat option"
  emissive :: "nat option"
  opacity :: "rat option"
  transparent :: bool
  depthWrite :: "bool option"
  depthTest :: "bool option"
  needsUpdate :: bool

record snapshot =
  hasColor :: bool
  baseColor :: "nat option"
  hasEmissive :: bool
  baseEmissive :: "nat option"
  baseOpacity :: rat
  baseTransparent :: bool
  baseDepthWrite :: bool
  baseDepthTest :: bool

definition snapshotMaterial :: "material \<Rightarrow> snapshot" where
  "snapshotMaterial m =
     \<lparr>hasColor = (color m \<noteq> None),
      baseColor = color m,
      hasEmissive = (emissive m \<noteq> None),
      baseEmissive = emissive m,
      baseOpacity = (case opacity m of Some x \<Rightarrow> x | None \<Rightarrow> 1),
      baseTransparent = transparent m,
      baseDepthWrite = (case depthWrite m of Some b \<Rightarrow> b | None \<Rightarrow> True),
      baseDepthTest = (case depthTest m of Some b \<Rightarrow> b | None \<Rightarrow> True)\<rparr>"

datatype mesh_state = Base | Dim | Sel

text \<open>The body of the loop of \<open>setMeshState\<close> for one material \<open>m\<close> and its snapshot (\<open>o\<close> in the
  source), by the state; \<open>needsUpdate\<close> is set in every case.\<close>

fun paintMaterial :: "mesh_state \<Rightarrow> snapshot option \<Rightarrow> material \<Rightarrow> material" where
  "paintMaterial Base (Some b) m =
     m\<lparr>color := (if color m \<noteq> None \<and> baseColor b \<noteq> None then baseColor b else color m),
       emissive := (if emissive m \<noteq> None \<and> baseEmissive b \<noteq> None
                    then baseEmissive b else emissive m),
       opacity := Some (baseOpacity b),
       transparent := baseTransparent b,
       depthWrite := (if depthWrite m \<noteq> None then Some (baseDepthWrite b) else None),
       depthTest := (if depthTest m \<noteq> None then Some (baseDepthTest b) else None),
       needsUpdate := True\<rparr>"
| "paintMaterial Base None m = m\<lparr>needsUpdate := True\<rparr>"
| "paintMaterial Dim snap m =
     m\<lparr>color := (if color m \<noteq> None then Some 0x444444 else None),
       emissive := (if emissive m \<noteq> None then Some 0x000000 else None),
       transparent := True,
       opacity := Some (7 / 100),
       depthWrite := (if depthWrite m \<noteq> None then Some False else None),
       depthTest := (if depthTest m \<noteq> None then Some True else None),
       needsUpdate := True\<rparr>"
| "paintMaterial Sel snap m =
     m\<lparr>color := (case snap of
                   Some b \<Rightarrow> if color m \<noteq> None \<and> baseColor b \<noteq> None
                             then baseColor b else color m
                 | None \<Rightarrow> color m),
       emissive := (if emissive m \<noteq> None then Some 0xff2222 else None),
       transparent := False,
       opacity := Some 1,
       depthWrite := (if depthWrite m \<noteq> None then Some True else None),
       depthTest := (if depthTest m \<noteq> None then Some True else None),
       needsUpdate := True\<rparr>"

text \<open>
  Materials are objects: they live in a heap, a mesh refers to them by address, and two
  meshes that hold the same address share the material. \<open>mesh.material\<close> is one material
  or an array of them, and an entry may be \<open>null\<close>.
\<close>

type_synonym material_heap = "nat \<Rightarrow> material"

datatype 'm material_slot = Single "'m option" | Multi "'m option list"

fun mats :: "'m material_slot \<Rightarrow> 'm option list" where
  "mats (Single m) = [m]"
| "mats (Multi ms) = ms"

record mesh =
  mesh_id :: nat
  mesh_name :: jsstring
  geometry :: "nat option"
  material :: "nat material_slot"
  partKey :: jsstring
  matBase :: "snapshot list"
  renderOrder :: int

text \<open>The loop of \<open>setMeshState\<close> from index \<open>i\<close> on; \<open>base[i] || null\<close> is the snapshot.\<close>

fun paintSlots ::
  "mesh_state \<Rightarrow> snapshot list \<Rightarrow> nat \<Rightarrow> nat option list \<Rightarrow> material_heap \<Rightarrow> material_heap" where
  "paintSlots state base i [] h = h"
| "paintSlots state base i (None # slots) h = paintSlots state base (Suc i) slots h"
| "paintSlots state base i (Some a # slots) h =
     paintSlots state base (Suc i) slots
       (h(a := paintMaterial state (if i < length base then Some (base ! i) else None) (h a)))"

definition setMeshState :: "mesh \<Rightarrow> mesh_state \<Rightarrow> material_heap \<Rightarrow> mesh \<times> material_heap" where
  "setMeshState m state h =
     (m\<lparr>renderOrder := (if state = Sel then 2 else 0)\<rparr>,
      paintSlots state (matBase m) 0 (mats (material m)) h)"

section \<open>Loaded models and the mesh index (viewer.js, ensureUniqueMaterials and loadModel)\<close>

text \<open>
  What the loader returns: the nodes of the object in the order of \<open>traverse\<close>, a mesh
  with its name, its geometry and its materials. A material of the asset carries the
  identity of its object, so two meshes that list the same identity share that material.
\<close>

record src_mesh =
  src_id :: nat
  src_name :: jsstring
  src_geometry :: "nat option"
  src_material :: "(nat \<times> material) material_slot"

datatype node = MeshNode src_mesh | OtherNode

record loaded_object =
  root_id :: nat
  nodes :: "node list"

text \<open>\<open>new THREE.MeshStandardMaterial({ color: 0x888888 })\<close>.\<close>

definition defaultMaterial :: material where
  "defaultMaterial =
     \<lparr>color = Some 0x888888, emissive = Some 0x000000, opacity = Some 1, transparent = False,
      depthWrite = Some True, depthTest = Some True, needsUpdate = False\<rparr>"

text \<open>
  \<open>m.clone()\<close> allocates a material with the properties of \<open>m\<close> at the next free address;
  a \<open>null\<close> entry gets the default material.
\<close>

fun cloneSlots ::
  "(nat \<times> material) option list \<Rightarrow> material_heap \<Rightarrow> nat \<Rightarrow> nat list \<times> material_heap \<times> nat" where
  "cloneSlots [] h n = ([], h, n)"
| "cloneSlots (slot # slots) h n =
     (let m = (case slot of Some (i, m) \<Rightarrow> m | None \<Rightarrow> defaultMaterial);
          (as, h', n') = cloneSlots slots (h(n := m)) (Suc n)
      in (n # as, h', n'))"

definition ensureUniqueMaterials ::
  "jsstring \<Rightarrow> src_mesh \<Rightarrow> material_heap \<Rightarrow> nat \<Rightarrow> mesh \<times> material_heap \<times> nat" where
  "ensureUniqueMaterials k sm h n =
     (let (cloned, h', n') = cloneSlots (mats (src_material sm)) h n
      in (\<lparr>mesh_id = src_id sm, mesh_name = src_name sm, geometry = src_geometry sm,
           material = (case src_material sm of
                         Multi ms \<Rightarrow> Multi (map Some cloned)
                       | Single m \<Rightarrow> Single (case cloned of a # as \<Rightarrow> Some a | [] \<Rightarrow> None)),
           partKey = k,
           matBase = map (\<lambda>a. snapshotMaterial (h' a)) cloned,
           renderOrder = 0\<rparr>, h', n'))"

text \<open>\<open>meshByKey\<close>: the meshes under a key, by identity, in the order they were found.\<close>

fun pushByKey :: "jsstring \<Rightarrow> nat \<Rightarrow> (jsstring \<times> nat list) list \<Rightarrow> (jsstring \<times> nat list) list" where
  "pushByKey k i [] = [(k, [i])]"
| "pushByKey k i ((k', is) # rest) =
     (if k' = k then (k', is @ [i]) # rest else (k', is) # pushByKey k i rest)"

text \<open>The traversal of \<open>loadModel\<close> that rebuilds the mesh index.\<close>

fun indexNodes ::
  "host \<Rightarrow> node list \<Rightarrow> mesh list \<Rightarrow> (jsstring \<times> nat list) list \<Rightarrow> material_heap \<Rightarrow> nat
   \<Rightarrow> mesh list \<times> (jsstring \<times> nat list) list \<times> material_heap \<times> nat" where
  "indexNodes H [] ml mbk h n = (ml, mbk, h, n)"
| "indexNodes H (OtherNode # ns) ml mbk h n = indexNodes H ns ml mbk h n"
| "indexNodes H (MeshNode child # ns) ml mbk h n =
     (let k = partKeyFromName H (src_name child);
          (m, h', n') = ensureUniqueMaterials k child h n
      in indexNodes H ns (ml @ [m]) (pushByKey k (mesh_id m) mbk) h' n')"

section \<open>Released resources (viewer.js, disposeObject)\<close>

datatype resource = Geometry nat | AssetMaterial nat | ClonedMaterial nat

definition disposeMesh :: "('m \<Rightarrow> resource) \<Rightarrow> nat option \<Rightarrow> 'm material_slot \<Rightarrow> resource list" where
  "disposeMesh res g ms =
     (case g of Some i \<Rightarrow> [Geometry i] | None \<Rightarrow> [])
     @ concat (map (\<lambda>slot. case slot of Some m \<Rightarrow> [res m] | None \<Rightarrow> []) (mats ms))"

text \<open>\<open>disposeObject\<close> on an object as the loader returned it.\<close>

fun disposeNodes :: "node list \<Rightarrow> resource list" where
  "disposeNodes [] = []"
| "disposeNodes (OtherNode # ns) = disposeNodes ns"
| "disposeNodes (MeshNode sm # ns) =
     disposeMesh (\<lambda>(i, m). AssetMaterial i) (src_geometry sm) (src_material sm) @ disposeNodes ns"

text \<open>
  \<open>disposeObject\<close> on the active model: its meshes are the meshes of \<open>meshList\<close>, with the
  cloned materials they now hold.
\<close>

definition disposeMeshes :: "mesh list \<Rightarrow> resource list" where
  "disposeMeshes ms = concat (map (\<lambda>m. disposeMesh ClonedMaterial (geometry m) (material m)) ms)"

section \<open>The viewer state\<close>

datatype error = UnknownSystem jsstring | LoadFailure jsstring

text \<open>
  The last message given to \<open>setStatus\<close> and the last arguments of \<open>setLoading\<close>; a label
  of \<open>None\<close> is printed as \<open>undefined\<close>.
\<close>

datatype status_msg =
    StatusInitial
  | StatusSwitching "jsstring option"
  | StatusMeshes "jsstring option" nat nat nat
  | StatusError error

datatype loading_msg = LoadingDefault | LoadingMetadata "jsstring option" | LoadingModel "jsstring option"

record chip =
  textContent :: jsstring
  data_key :: jsstring
  data_search :: jsstring
  selected :: bool
  hidden :: bool

text \<open>A request that is in flight: \<open>fetch(url)\<close> or \<open>loader.loadAsync(url)\<close>.\<close>

datatype request = FetchJson "jsstring option" | LoadFbx "jsstring option"

text \<open>
  The module variables of viewer.js, the heap of cloned materials with its next free
  address, the log of the resources released so far, the page (the chips when the element
  exists, the text of the filter box when it exists, the system tabs with their \<open>active\<close>
  class), and the requests in flight with the token and the system of the call that waits
  for each. The scene lists the model roots added to it; lights and camera are left out.
\<close>

record viewer =
  scene :: "nat list"
  modelRoot :: "nat option"
  meshList :: "mesh list"
  meshByKey :: "(jsstring \<times> nat list) list"
  groupByKey :: group_index
  selectedGroupKeys :: "jsstring list"
  activeSystem :: jsstring
  loadToken :: nat
  heap :: material_heap
  nextAddr :: nat
  disposed :: "resource list"
  chips :: "chip list option"
  filterValue :: "jsstring option"
  tabs :: "(jsstring \<times> bool) list"
  status :: status_msg
  loading :: "bool \<times> loading_msg"
  pending :: "(nat \<times> jsstring \<times> request) list"

definition initialViewer :: viewer where
  "initialViewer =
     \<lparr>scene = [], modelRoot = None, meshList = [], meshByKey = [], groupByKey = [],
      selectedGroupKeys = [], activeSystem = str ''muscles'', loadToken = 0,
      heap = (\<lambda>a. defaultMaterial), nextAddr = 0, disposed = [],
      chips = Some [], filterValue = Some [],
      tabs = map (\<lambda>(k, c). (k, False)) SYSTEMS_own,
      status = StatusInitial, loading = (False, LoadingDefault), pending = []\<rparr>"

section \<open>Chips and filtering (viewer.js, renderChips, updateChipSelectionUI, applyFilter)\<close>

definition updateChipSelectionUI :: "viewer \<Rightarrow> viewer" where
  "updateChipSelectionUI st =
     (case chips st of
        None \<Rightarrow> st
      | Some cs \<Rightarrow>
          st\<lparr>chips := Some (map (\<lambda>c. c\<lparr>selected := set_has (selectedGroupKeys st) (data_key c)\<rparr>) cs)\<rparr>)"

definition applyFilter :: "host \<Rightarrow> jsstring \<Rightarrow> viewer \<Rightarrow> viewer" where
  "applyFilter H text st =
     (case chips st of
        None \<Rightarrow> st
      | Some cs \<Rightarrow>
          (let q = slugify H text
           in st\<lparr>chips := Some (map (\<lambda>c. if q = [] then c\<lparr>hidden := False\<rparr>
                                          else c\<lparr>hidden := \<not> str_includes (data_search c) q\<rparr>) cs)\<rparr>))"

definition chipOf :: "host \<Rightarrow> group \<Rightarrow> chip" where
  "chipOf H g =
     \<lparr>textContent = name g, data_key = key g, data_search = slugify H (name g),
      selected = False, hidden = False\<rparr>"

definition renderChips :: "host \<Rightarrow> viewer \<Rightarrow> viewer" where
  "renderChips H st =
     (case chips st of
        None \<Rightarrow> st
      | Some old \<Rightarrow>
          (let sorted = sortBy (\<lambda>a b. localeCompare H (name a) (name b)) (map snd (groupByKey st));
               st1 = updateChipSelectionUI (st\<lparr>chips := Some (map (chipOf H) sorted)\<rparr>)
           in applyFilter H (case filterValue st1 of Some t \<Rightarrow> t | None \<Rightarrow> []) st1))"

text \<open>The chips that the filter leaves on the page.\<close>

definition visibleChips :: "viewer \<Rightarrow> chip list" where
  "visibleChips st = (case chips st of None \<Rightarrow> [] | Some cs \<Rightarrow> filter (\<lambda>c. \<not> hidden c) cs)"

section \<open>Repainting (viewer.js, applySelectionToMeshes)\<close>

text \<open>The loop over \<open>meshList\<close>; the third component counts the highlighted meshes.\<close>

fun paintMeshes :: "jsstring list \<Rightarrow> mesh list \<Rightarrow> material_heap \<Rightarrow> mesh list \<times> material_heap \<times> nat" where
  "paintMeshes selectedMeshKeys [] h = ([], h, 0)"
| "paintMeshes selectedMeshKeys (m # ms) h =
     (let mk = partKey m
      in if selectedMeshKeys = [] then
           (let (m', h') = setMeshState m Base h;
                (ms', h'', highlighted) = paintMeshes selectedMeshKeys ms h'
            in (m' # ms', h'', highlighted))
         else if mk \<noteq> [] \<and> set_has selectedMeshKeys mk then
           (let (m', h') = setMeshState m Sel h;
                (ms', h'', highlighted) = paintMeshes selectedMeshKeys ms h'
            in (m' # ms', h'', Suc highlighted))
         else
           (let (m', h') = setMeshState m Dim h;
                (ms', h'', highlighted) = paintMeshes selectedMeshKeys ms h'
            in (m' # ms', h'', highlighted)))"

text \<open>
  \<open>activeSystem\<close> is \<open>muscles\<close> at the start and is assigned only after the catalogue
  check of \<open>loadSystem\<close>, so \<open>SYSTEMS[activeSystem]\<close> is defined when the status is
  written; were it not, the \<open>TypeError\<close> would leave the status as it was.
\<close>

definition applySelectionToMeshes :: "viewer \<Rightarrow> viewer" where
  "applySelectionToMeshes st =
     (let selectedMeshKeys = computeSelectedMeshKeys (groupByKey st) (selectedGroupKeys st);
          (ms, h, highlighted) = paintMeshes selectedMeshKeys (meshList st) (heap st)
      in st\<lparr>meshList := ms, heap := h,
            status := (case SYSTEMS (activeSystem st) of
                         Some sys \<Rightarrow> StatusMeshes (labelOf sys) (length ms)
                                       (length (selectedGroupKeys st)) highlighted
                       | None \<Rightarrow> status st)\<rparr>)"

text \<open>
  The state that the specification gives a mesh: a function of the expanded mesh-key set
  and of the mesh's part key.
\<close>

definition specState :: "jsstring set \<Rightarrow> jsstring \<Rightarrow> mesh_state" where
  "specState expanded pk = (if expanded = {} then Base else if pk \<in> expanded then Sel else Dim)"

text \<open>Applying a given state to each mesh in turn.\<close>

fun applyStates :: "(mesh \<Rightarrow> mesh_state) \<Rightarrow> mesh list \<Rightarrow> material_heap \<Rightarrow> mesh list \<times> material_heap" where
  "applyStates f [] h = ([], h)"
| "applyStates f (m # ms) h =
     (let (m', h') = setMeshState m (f m) h; (ms', h'') = applyStates f ms h' in (m' # ms', h''))"

section \<open>Selection commands (viewer.js, toggleGroup and clearSelection)\<close>

definition toggleGroup :: "jsstring \<Rightarrow> viewer \<Rightarrow> viewer" where
  "toggleGroup k st =
     (if k = [] then st
      else applySelectionToMeshes (updateChipSelectionUI
             (st\<lparr>selectedGroupKeys :=
                   (if set_has (selectedGroupKeys st) k then set_delete (selectedGroupKeys st) k
                    else set_add (selectedGroupKeys st) k)\<rparr>)))"

definition clearSelection :: "viewer \<Rightarrow> viewer" where
  "clearSelection st = applySelectionToMeshes (updateChipSelectionUI (st\<lparr>selectedGroupKeys := []\<rparr>))"

section \<open>Loading a system (viewer.js, loadSystem, loadGroups, loadModel)\<close>

text \<open>
  An \<open>async\<close> function runs up to its first \<open>await\<close> when it is called and resumes when
  the awaited request settles. Each part is a function on the state; an exception is
  returned beside the state as it is when the exception is thrown.
\<close>

definition setLoading :: "bool \<Rightarrow> loading_msg \<Rightarrow> viewer \<Rightarrow> viewer" where
  "setLoading sh msg st = st\<lparr>loading := (sh, msg)\<rparr>"

text \<open>\<open>loadGroups\<close> up to \<open>await fetchJson(sys.groups)\<close>.\<close>

definition loadGroups_start :: "jsstring \<Rightarrow> nat \<Rightarrow> viewer \<Rightarrow> error option \<times> viewer" where
  "loadGroups_start systemKey token st =
     (case SYSTEMS systemKey of
        None \<Rightarrow> (Some (UnknownSystem systemKey), st)
      | Some sys \<Rightarrow>
          (None, (setLoading True (LoadingMetadata (labelOf sys)) st)
                   \<lparr>pending := pending st @ [(token, systemKey, FetchJson (groupsOf sys))]\<rparr>))"

text \<open>\<open>loadGroups\<close> after the metadata has arrived.\<close>

definition loadGroups_resume ::
  "host \<Rightarrow> nat \<Rightarrow> metadata \<Rightarrow> viewer \<Rightarrow> viewer" where
  "loadGroups_resume H token groupsJson st =
     (if token \<noteq> loadToken st then st
      else setLoading False LoadingDefault
             (renderChips H (st\<lparr>groupByKey := buildGroupIndex H groupsJson\<rparr>)))"

text \<open>\<open>loadModel\<close> up to \<open>await loader.loadAsync(sys.fbx)\<close>.\<close>

definition loadModel_start :: "jsstring \<Rightarrow> nat \<Rightarrow> viewer \<Rightarrow> error option \<times> viewer" where
  "loadModel_start systemKey token st =
     (case SYSTEMS systemKey of
        None \<Rightarrow> (Some (UnknownSystem systemKey), st)
      | Some sys \<Rightarrow>
          (None, (setLoading True (LoadingModel (labelOf sys)) st)
                   \<lparr>pending := pending st @ [(token, systemKey, LoadFbx (fbxOf sys))]\<rparr>))"

text \<open>
  \<open>loadModel\<close> after the model has arrived. The framing of the camera
  (\<open>fitCameraToObject\<close>) is left out.
\<close>

definition loadModel_resume :: "host \<Rightarrow> nat \<Rightarrow> loaded_object \<Rightarrow> viewer \<Rightarrow> viewer" where
  "loadModel_resume H token obj st =
     (if token \<noteq> loadToken st then st\<lparr>disposed := disposed st @ disposeNodes (nodes obj)\<rparr>
      else
        (let st1 = (case modelRoot st of
                      Some r \<Rightarrow> st\<lparr>scene := removeAll r (scene st),
                                   disposed := disposed st @ disposeMeshes (meshList st),
                                   modelRoot := None\<rparr>
                    | None \<Rightarrow> st);
             st2 = st1\<lparr>modelRoot := Some (root_id obj), scene := scene st1 @ [root_id obj]\<rparr>;
             (ml, mbk, h, n) = indexNodes H (nodes obj) [] [] (heap st2) (nextAddr st2);
             st3 = st2\<lparr>meshList := ml, meshByKey := mbk, heap := h, nextAddr := n\<rparr>
         in applySelectionToMeshes (setLoading False LoadingDefault st3)))"

text \<open>\<open>loadSystem\<close> up to its first \<open>await\<close>, which is the one inside \<open>loadGroups\<close>.\<close>

definition loadSystem :: "jsstring \<Rightarrow> viewer \<Rightarrow> error option \<times> viewer" where
  "loadSystem systemKey st =
     (case SYSTEMS systemKey of
        None \<Rightarrow> (Some (UnknownSystem systemKey), st)
      | Some sys \<Rightarrow>
          (let st1 = st\<lparr>activeSystem := systemKey,
                        tabs := map (\<lambda>(k, a). (k, k = systemKey)) (tabs st),
                        selectedGroupKeys := []\<rparr>;
               st2 = (updateChipSelectionUI st1)\<lparr>status := StatusSwitching (labelOf sys)\<rparr>;
               token = Suc (loadToken st2);
               st3 = st2\<lparr>loadToken := token\<rparr>
           in loadGroups_start systemKey token st3))"

text \<open>
  The callers of \<open>loadSystem\<close> catch a rejection and report it with \<open>setStatus\<close>.
\<close>

definition report :: "error option \<times> viewer \<Rightarrow> viewer" where
  "report r = (case fst r of Some e \<Rightarrow> (snd r)\<lparr>status := StatusError e\<rparr> | None \<Rightarrow> snd r)"

text \<open>
  What can happen next: a click on a system tab, or the settling of a request in flight,
  named by the token of the call that waits for it. After the metadata \<open>loadSystem\<close>
  goes on to \<open>loadModel\<close>, whose call sets the loading text and issues the model request.
  An event for which no request is in flight cannot happen: the step is \<open>None\<close>.
\<close>

datatype event =
    SwitchSystem jsstring
  | JsonFetched nat metadata
  | FetchFailed nat jsstring
  | ModelLoaded nat loaded_object
  | ModelFailed nat jsstring

definition dropPending :: "nat \<Rightarrow> viewer \<Rightarrow> viewer" where
  "dropPending token st = st\<lparr>pending := filter (\<lambda>p. fst p \<noteq> token) (pending st)\<rparr>"

fun step :: "host \<Rightarrow> viewer \<Rightarrow> event \<Rightarrow> viewer option" where
  "step H st (SwitchSystem systemKey) = Some (report (loadSystem systemKey st))"
| "step H st (JsonFetched token groupsJson) =
     (case map_of (pending st) token of
        Some (systemKey, FetchJson url) \<Rightarrow>
          Some (report (loadModel_start systemKey token
                          (loadGroups_resume H token groupsJson (dropPending token st))))
      | _ \<Rightarrow> None)"
| "step H st (FetchFailed token msg) =
     (case map_of (pending st) token of
        Some (systemKey, FetchJson url) \<Rightarrow>
          Some (report (Some (LoadFailure msg), dropPending token st))
      | _ \<Rightarrow> None)"
| "step H st (ModelLoaded token obj) =
     (case map_of (pending st) token of
        Some (systemKey, LoadFbx url) \<Rightarrow>
          Some (loadModel_resume H token obj (dropPending token st))
      | _ \<Rightarrow> None)"
| "step H st (ModelFailed token msg) =
     (case map_of (pending st) token of
        Some (systemKey, LoadFbx url) \<Rightarrow>
          Some (report (Some (LoadFailure msg), dropPending token st))
      | _ \<Rightarrow> None)"

fun run :: "host \<Rightarrow> viewer \<Rightarrow> event list \<Rightarrow> viewer option" where
  "run H st [] = Some st"
| "run H st (e # es) = (case step H st e of Some st' \<Rightarrow> run H st' es | None \<Rightarrow> None)"

text \<open>
  The state that the load protocol shares between calls: group index, mesh index,
  selection, scene and active model, and the materials of the active meshes.
\<close>

definition sharedState ::
  "viewer \<Rightarrow> group_index \<times> mesh list \<times> (jsstring \<times> nat list) list \<times> jsstring list
             \<times> nat list \<times> nat option \<times> material_heap \<times> nat \<times> jsstring \<times> nat" where
  "sharedState st =
     (groupByKey st, meshList st, meshByKey st, selectedGroupKeys st, scene st, modelRoot st,
      heap st, nextAddr st, activeSystem st, loadToken st)"

text \<open>The primitives of a loaded object, by identity.\<close>

fun meshIds :: "node list \<Rightarrow> nat list" where
  "meshIds [] = []"
| "meshIds (OtherNode # ns) = meshIds ns"
| "meshIds (MeshNode sm # ns) = src_id sm # meshIds ns"

fun meshNames :: "node list \<Rightarrow> jsstring list" where
  "meshNames [] = []"
| "meshNames (OtherNode # ns) = meshNames ns"
| "meshNames (MeshNode sm # ns) = src_name sm # meshNames ns"

section \<open>The variant viewer (second source file, renderChipsFromSearch)\<close>

text \<open>
  The second source file lists the chips from the metadata itself. A value of the
  metadata is an object here; its name is \<open>v.name || k\<close>.
\<close>

record item =
  item_key :: jsstring
  item_name :: jsstring
  item_variants :: "(jsstring \<times> variant_list) list"

definition itemOf :: "jsstring \<times> meta_value \<Rightarrow> item" where
  "itemOf e =
     \<lparr>item_key = fst e,
      item_name = (case meta_name (snd e) of Some n \<Rightarrow> if n \<noteq> [] then n else fst e | None \<Rightarrow> fst e),
      item_variants = (case variants (snd e) of Some vs \<Rightarrow> vs | None \<Rightarrow> [])\<rparr>"

definition matchesSearch :: "host \<Rightarrow> jsstring \<Rightarrow> item \<Rightarrow> bool" where
  "matchesSearch H q it =
     (str_includes (toLowerCase H (item_name it)) q \<or> str_includes (item_key it) q)"

definition chipOrder :: "host \<Rightarrow> item \<Rightarrow> item \<Rightarrow> int" where
  "chipOrder H a b =
     (if int (length (item_name a)) - int (length (item_name b)) \<noteq> 0
      then int (length (item_name a)) - int (length (item_name b))
      else localeCompare H (item_name a) (item_name b))"

definition renderChipsFromSearch ::
  "host \<Rightarrow> jsstring \<Rightarrow> metadata \<Rightarrow> item list" where
  "renderChipsFromSearch H searchValue groupsJson =
     (let q = toLowerCase H (trim searchValue);
          items = map itemOf groupsJson;
          filtered = (if q \<noteq> [] then filter (matchesSearch H q) items else items)
      in take 140 (sortBy (chipOrder H) filtered))"

section \<open>Reference notions for the group index\<close>

text \<open>
  The key that an entry of the metadata derives, the raw names of its variant lists, and
  the keys of those names, the empty key left out.
\<close>

definition entryKey :: "host \<Rightarrow> jsstring \<times> meta_value \<Rightarrow> jsstring" where
  "entryKey H e = slugify H (displayName (fst e) (snd e))"

definition rawNamesOf :: "meta_value \<Rightarrow> raw_name list" where
  "rawNamesOf v =
     (case variants v of
        None \<Rightarrow> []
      | Some vs \<Rightarrow> concat (map (\<lambda>(tag, arr). case arr of RawNames rs \<Rightarrow> rs | NotAnArray \<Rightarrow> []) vs))"

definition variantKeys :: "host \<Rightarrow> meta_value \<Rightarrow> jsstring set" where
  "variantKeys H v =
     set (filter (\<lambda>mk. mk \<noteq> []) (map (\<lambda>raw. slugify H (rawText raw)) (rawNamesOf v)))"

definition membersOf :: "group_index \<Rightarrow> jsstring \<Rightarrow> jsstring set" where
  "membersOf idx k = (case map_of idx k of Some g \<Rightarrow> set (meshKeys g) | None \<Rightarrow> {})"

text \<open>Two groups that share a member, and a metadata entry with an unkeyable variant name.\<close>

definition exampleGroups :: group_index where
  "exampleGroups =
     [(str ''a'', \<lparr>key = str ''a'', name = str ''A'', meshKeys = [str ''m1'', str ''m2'']\<rparr>),
      (str ''b'', \<lparr>key = str ''b'', name = str ''B'', meshKeys = [str ''m2'', str ''m3'']\<rparr>)]"


section \<open>Reference notions for meshes and states\<close>

text \<open>The addresses of the materials that a mesh holds.\<close>

definition meshMaterials :: "mesh \<Rightarrow> nat list" where
  "meshMaterials m = concat (map (\<lambda>slot. case slot of Some a \<Rightarrow> [a] | None \<Rightarrow> []) (mats (material m)))"

text \<open>The appearance of the materials of a mesh, read the way a snapshot reads it.\<close>

definition appearance :: "mesh \<Rightarrow> material_heap \<Rightarrow> snapshot list" where
  "appearance m h = map (\<lambda>a. snapshotMaterial (h a)) (meshMaterials m)"

text \<open>Painting a mesh with a sequence of states, one after the other.\<close>

definition paintSequence :: "mesh \<Rightarrow> mesh_state list \<Rightarrow> material_heap \<Rightarrow> material_heap" where
  "paintSequence m states h = foldl (\<lambda>h s. snd (setMeshState m s h)) h states"

text \<open>
  No key in use is empty: \<open>toggleGroup\<close> ignores the empty key and \<open>buildGroupIndex\<close>
  skips it, and every group has a member.
\<close>

definition keyed :: "viewer \<Rightarrow> bool" where
  "keyed st =
     ([] \<notin> set (selectedGroupKeys st)
      \<and> list_all (\<lambda>(k, g). meshKeys g \<noteq> [] \<and> [] \<notin> set (meshKeys g)) (groupByKey st))"

text \<open>
  A model of three nodes: two meshes that share the asset's material 7, the second with a
  second, empty material entry.
\<close>

definition exampleMaterial :: material where
  "exampleMaterial =
     \<lparr>color = Some 0xbfc5cc, emissive = None, opacity = Some (1 / 2), transparent = True,
      depthWrite = Some True, depthTest = None, needsUpdate = False\<rparr>"

definition exampleModel :: loaded_object where
  "exampleModel =
     \<lparr>root_id = 1,
      nodes = [MeshNode \<lparr>src_id = 10, src_name = str ''VastusLateralis.l'', src_geometry = Some 20,
                         src_material = Single (Some (7, exampleMaterial))\<rparr>,
               OtherNode,
               MeshNode \<lparr>src_id = 11, src_name = str ''VastusLateralis.r'', src_geometry = Some 21,
                         src_material = Multi [Some (7, exampleMaterial), None]\<rparr>]\<rparr>"

text \<open>
  A snapshot agrees with a material when it records the optional properties that the
  material has; two materials have the same shape when they have the same optional
  properties. \<open>setMeshState\<close> writes into properties and never adds or removes one.
\<close>

definition agrees :: "snapshot \<Rightarrow> material \<Rightarrow> bool" where
  "agrees b m =
     (hasColor b = (color m \<noteq> None) \<and> (baseColor b = None) = (color m = None)
      \<and> hasEmissive b = (emissive m \<noteq> None) \<and> (baseEmissive b = None) = (emissive m = None)
      \<and> (depthWrite m \<noteq> None \<or> baseDepthWrite b)
      \<and> (depthTest m \<noteq> None \<or> baseDepthTest b))"

definition sameShape :: "material \<Rightarrow> material \<Rightarrow> bool" where
  "sameShape m m' =
     ((color m = None) = (color m' = None) \<and> (emissive m = None) = (emissive m' = None)
      \<and> (depthWrite m = None) = (depthWrite m' = None)
      \<and> (depthTest m = None) = (depthTest m' = None))"

section \<open>Key normalisation: canonical keys and idempotence\<close>

lemma slugChar_facts:
  assumes "isSlugChar c"
  shows "\<not> isWhiteSpace c" "c \<noteq> 0" "c \<noteq> 46" "c \<noteq> 95"
  using assms by (auto simp: isSlugChar_def isWhiteSpace_def)

lemma underscore_facts: "\<not> isWhiteSpace 95" "\<not> isSlugChar 95"
  by (simp_all add: isSlugChar_def isWhiteSpace_def)

lemma keyChar_facts:
  assumes "isKeyChar c"
  shows "\<not> isWhiteSpace c" "c \<noteq> 0" "c \<noteq> 46"
  using assms slugChar_facts underscore_facts by (auto simp: isKeyChar_def)

lemma dropEnds_id:
  assumes "s = [] \<or> (\<not> P (hd s) \<and> \<not> P (last s))"
  shows "rev (dropWhile P (rev (dropWhile P s))) = s"
proof (cases s)
  case Nil
  then show ?thesis by simp
next
  case (Cons a as)
  with assms have h: "\<not> P (hd s)" and l: "\<not> P (last s)" by auto
  from Cons h have "dropWhile P s = s" by simp
  moreover have "hd (rev s) = last s" using Cons by (simp add: hd_rev)
  with l have "\<not> P (hd (rev s))" by simp
  then have "dropWhile P (rev s) = rev s" by (cases "rev s") simp_all
  ultimately show ?thesis by simp
qed

lemma replaceRuns_id: "\<forall>c\<in>set s. \<not> P c \<Longrightarrow> replaceRuns P r s = s"
  by (induction s) auto

lemma replaceRuns_key_id:
  "list_all isKeyChar s \<Longrightarrow> \<not> sublist [95, 95] s \<Longrightarrow>
   replaceRuns (\<lambda>c. \<not> isSlugChar c) 95 s = s"
proof (induction s)
  case Nil
  then show ?case by simp
next
  case (Cons c cs)
  from Cons.prems have rest: "list_all isKeyChar cs" "\<not> sublist [95, 95] cs"
    by (auto simp: sublist_Cons_right)
  show ?case
  proof (cases "isSlugChar c")
    case True
    with Cons.IH rest show ?thesis by simp
  next
    case False
    with Cons.prems have c: "c = 95" by (simp add: isKeyChar_def)
    have "dropWhile (\<lambda>c. \<not> isSlugChar c) cs = cs"
    proof (cases cs)
      case Nil
      then show ?thesis by simp
    next
      case (Cons d ds)
      with Cons.prems c have "d \<noteq> 95"
        by (auto simp: sublist_Cons_right)
      with Cons rest(1) have "isSlugChar d" by (simp add: isKeyChar_def)
      with Cons show ?thesis by simp
    qed
    with False c Cons.IH rest show ?thesis by simp
  qed
qed

lemma dropWhile_hd: "dropWhile P s \<noteq> [] \<Longrightarrow> \<not> P (hd (dropWhile P s))"
  by (metis hd_dropWhile)

lemma replaceRuns_dropWhile_hd:
  assumes "replaceRuns P r (dropWhile P cs) = d # ds"
  shows "\<not> P d"
proof (cases "dropWhile P cs")
  case Nil
  with assms show ?thesis by simp
next
  case (Cons e es)
  then have "\<not> P e" using dropWhile_hd[of P cs] by simp
  with assms Cons show ?thesis by simp
qed

lemma replaceRuns_keyChars:
  "list_all isKeyChar (replaceRuns (\<lambda>c. \<not> isSlugChar c) 95 s)"
  by (induction "\<lambda>c. \<not> isSlugChar c" "95 :: nat" s rule: replaceRuns.induct)
     (auto simp: isKeyChar_def)

lemma replaceRuns_noDouble:
  "\<not> sublist [95, 95] (replaceRuns (\<lambda>c. \<not> isSlugChar c) 95 s)"
proof (induction "\<lambda>c. \<not> isSlugChar c" "95 :: nat" s rule: replaceRuns.induct)
  case 1
  then show ?case by simp
next
  case (2 c cs)
  let ?P = "\<lambda>c. \<not> isSlugChar c"
  show ?case
  proof (cases "isSlugChar c")
    case True
    with 2 show ?thesis
      using slugChar_facts(4)[OF True] by (auto simp: sublist_Cons_right)
  next
    case False
    let ?t = "replaceRuns ?P 95 (dropWhile ?P cs)"
    have "\<not> prefix [95, 95] (95 # ?t)"
    proof (cases ?t)
      case Nil
      then show ?thesis by simp
    next
      case (Cons d ds)
      then have "isSlugChar d" using replaceRuns_dropWhile_hd[of ?P 95 cs d ds] by simp
      with Cons show ?thesis using slugChar_facts(4) by auto
    qed
    with False 2 show ?thesis by (auto simp: sublist_Cons_right)
  qed
qed

lemma sublist_dropEnds: "sublist (rev (dropWhile P (rev (dropWhile P s)))) s"
proof -
  have "suffix (dropWhile P s) s" by (rule suffix_dropWhile)
  moreover have "prefix (rev (dropWhile P (rev (dropWhile P s)))) (dropWhile P s)"
    by (metis suffix_dropWhile suffix_to_prefix rev_rev_ident)
  ultimately show ?thesis
    by (meson prefix_imp_sublist suffix_imp_sublist sublist_order.order_trans)
qed

lemma dropEnds_ends:
  assumes "t = rev (dropWhile P (rev (dropWhile P s)))"
  shows "t = [] \<or> (\<not> P (hd t) \<and> \<not> P (last t))"
proof (cases "t = []")
  case True
  then show ?thesis by simp
next
  case False
  let ?u = "dropWhile P s"
  from False assms have r: "dropWhile P (rev ?u) \<noteq> []" by simp
  then have u: "?u \<noteq> []" by (cases ?u) simp_all
  have l: "\<not> P (last t)"
    using dropWhile_hd[OF r] assms r by (simp add: last_rev)
  have "\<not> P (hd ?u)" using dropWhile_hd[OF u] .
  moreover have "prefix t ?u"
    unfolding assms by (metis suffix_dropWhile suffix_to_prefix rev_rev_ident)
  ultimately have "\<not> P (hd t)" using False
    by (metis hd_append2 prefix_def)
  with l show ?thesis by simp
qed

lemma slugify_canonical: "isCanonicalKey (slugify H s)"
proof -
  let ?r = "replaceRuns (\<lambda>c. \<not> isSlugChar c) 95 (toLowerCase H (normalizeLabel s))"
  have sub: "sublist (slugify H s) ?r"
    unfolding slugify_def stripUnderscores_def by (rule sublist_dropEnds)
  have "set (slugify H s) \<subseteq> set ?r" using sub by (rule set_mono_sublist)
  then have a: "list_all isKeyChar (slugify H s)"
    using replaceRuns_keyChars[of "toLowerCase H (normalizeLabel s)"]
    by (auto simp: list_all_iff)
  have b: "\<not> sublist [95, 95] (slugify H s)"
    using replaceRuns_noDouble sub sublist_order.order_trans by blast
  have c: "slugify H s = [] \<or> (hd (slugify H s) \<noteq> 95 \<and> last (slugify H s) \<noteq> 95)"
    using dropEnds_ends[of "slugify H s" "\<lambda>c. c = 95" ?r]
    by (simp add: slugify_def stripUnderscores_def)
  from a b c show ?thesis by (simp add: isCanonicalKey_def)
qed

lemma slugify_fixes_canonical:
  assumes "keepsKeys H" and "isCanonicalKey t" and "\<not> hasExporterSuffix t"
  shows "slugify H t = t"
proof -
  from assms(2) have keys: "list_all isKeyChar t" and nd: "\<not> sublist [95, 95] t"
    and ends: "t = [] \<or> (hd t \<noteq> 95 \<and> last t \<noteq> 95)"
    by (auto simp: isCanonicalKey_def)
  have all: "\<And>c. c \<in> set t \<Longrightarrow> isKeyChar c" using keys by (simp add: list_all_iff)
  have lc: "toLowerCase H t = t" using assms(1) keys by (simp add: keepsKeys_def)
  have rr: "replaceRuns (\<lambda>c. \<not> isSlugChar c) 95 t = t"
    using keys nd by (rule replaceRuns_key_id)
  have su: "stripUnderscores t = t"
    unfolding stripUnderscores_def
    by (rule dropEnds_id) (use ends in auto)
  have nl: "normalizeLabel t = t"
  proof (cases "t = []")
    case True
    then show ?thesis by (simp add: normalizeLabel_def trim_def)
  next
    case False
    have f: "filter (\<lambda>c. c \<noteq> 0) t = t"
      using all keyChar_facts(2) by (auto simp: filter_id_conv)
    have tr: "trim t = t"
      unfolding trim_def
      by (rule dropEnds_id) (use False all keyChar_facts(1) in auto)
    have se: "stripExporterSuffix t = t"
      using assms(3) by (simp add: stripExporterSuffix_def hasExporterSuffix_def)
    have ms: "matchSideSuffix t = None"
    proof -
      have "2 \<le> length t \<Longrightarrow> t ! (length t - 2) \<noteq> 46"
        using all keyChar_facts(3) by (metis diff_less nth_mem pos2 less_le_trans zero_less_numeral)
      then show ?thesis by (auto simp: matchSideSuffix_def)
    qed
    have ws: "replaceRuns isWhiteSpace 32 t = t"
      by (rule replaceRuns_id) (use all keyChar_facts(1) in auto)
    show ?thesis unfolding normalizeLabel_def f tr Let_def se ms using False by (simp add: ws tr)
  qed
  show ?thesis by (simp add: slugify_def nl lc rr su)
qed

lemmas slug_eval = slugify_def normalizeLabel_def trim_def stripExporterSuffix_def endsWithCI_def
  matchSideSuffix_def stripUnderscores_def isWhiteSpace_def isLineTerminator_def isSlugChar_def
  asciiLower_def str_def exampleHost_def latin1Lower_def Let_def

lemma keepsKeys_exampleHost: "keepsKeys exampleHost"
proof -
  have "latin1Lower c = c" if "isKeyChar c" for c
    using that by (auto simp: isKeyChar_def isSlugChar_def latin1Lower_def)
  then have "map latin1Lower t = t" if "list_all isKeyChar t" for t
    using that by (simp add: list_all_iff map_idI)
  then show ?thesis by (simp add: keepsKeys_def exampleHost_def)
qed

text \<open>
  Claim C4, as amended. For every string of code units, \<open>slugify\<close> returns a canonical key
  (code units of \<open>[a-z0-9_]\<close>, no separator at either end, no two separators in a row), and
  it leaves a canonical key as it is unless the key ends in \<open>model\<close> or \<open>geometry\<close>, which
  the exporter-suffix rule removes again. So normalising twice equals normalising once
  for every string whose key does not end in an exporter suffix. Of the host's
  \<open>toLowerCase\<close> this uses only that it leaves a string of \<open>[a-z0-9_]\<close> as it is.
\<close>

theorem slugify_idempotent_without_exporter_suffix:
  "keepsKeys H \<Longrightarrow> \<not> hasExporterSuffix (slugify H s) \<Longrightarrow>
   slugify H (slugify H s) = slugify H s"
  by (rule slugify_fixes_canonical[OF _ slugify_canonical])

text \<open>The amended claim C4 at the raw name \<open>Quadriceps.L\<close>.\<close>

theorem slugify_idempotent_without_exporter_suffix_witness:
  "keepsKeys exampleHost
   \<and> \<not> hasExporterSuffix (slugify exampleHost (str ''Quadriceps.L''))
   \<and> slugify exampleHost (slugify exampleHost (str ''Quadriceps.L''))
       = slugify exampleHost (str ''Quadriceps.L'')
   \<and> slugify exampleHost (str ''Quadriceps.L'') = str ''quadriceps''"
proof -
  have v: "slugify exampleHost (str ''Quadriceps.L'') = str ''quadriceps''"
    by (simp add: slug_eval)
  have h: "\<not> hasExporterSuffix (slugify exampleHost (str ''Quadriceps.L''))"
    unfolding v by (simp add: hasExporterSuffix_def slug_eval)
  from slugify_idempotent_without_exporter_suffix[OF keepsKeys_exampleHost h]
       keepsKeys_exampleHost h v
  show ?thesis by simp
qed

text \<open>
  Claim C4 as stated fails: the exporter suffix is removed once per call, so a name that
  carries it twice loses one with each normalisation.
\<close>

theorem slugify_not_idempotent:
  "slugify exampleHost (slugify exampleHost (str ''BicepsModelModel''))
   \<noteq> slugify exampleHost (str ''BicepsModelModel'')"
proof -
  have a: "slugify exampleHost (str ''BicepsModelModel'') = str ''bicepsmodel''"
    by (simp add: slug_eval)
  have b: "slugify exampleHost (str ''bicepsmodel'') = str ''biceps''"
    by (simp add: slug_eval)
  have c: "str ''biceps'' \<noteq> str ''bicepsmodel''" by (simp add: str_def)
  show ?thesis unfolding a b by (rule c)
qed

section \<open>Selection: toggling and expansion\<close>

lemma set_set_add [simp]: "set (set_add xs x) = insert x (set xs)"
  by (auto simp: set_add_def)

lemma set_set_delete [simp]: "set (set_delete xs x) = set xs - {x}"
  by (auto simp: set_delete_def)

lemma distinct_set_add: "distinct xs \<Longrightarrow> distinct (set_add xs x)"
  by (simp add: set_add_def)

lemma distinct_set_delete: "distinct xs \<Longrightarrow> distinct (set_delete xs x)"
  by (simp add: set_delete_def distinct_removeAll)

lemma set_foldl_set_add [simp]: "set (foldl set_add out xs) = set out \<union> set xs"
  by (induction xs arbitrary: out) auto

lemma distinct_foldl_set_add: "distinct out \<Longrightarrow> distinct (foldl set_add out xs)"
  by (induction xs arbitrary: out) (auto simp: distinct_set_add)

lemma paintMeshes_length: "paintMeshes ks ms h = (ms', h', n) \<Longrightarrow> length ms' = length ms"
  by (induction ms arbitrary: h ms' h' n) (auto simp: Let_def split: prod.splits if_splits)

lemma selected_updateChipSelectionUI [simp]:
  "selectedGroupKeys (updateChipSelectionUI st) = selectedGroupKeys st"
  by (simp add: updateChipSelectionUI_def split: option.splits)

lemma selected_applySelectionToMeshes [simp]:
  "selectedGroupKeys (applySelectionToMeshes st) = selectedGroupKeys st"
  by (simp add: applySelectionToMeshes_def Let_def split: prod.splits)

text \<open>
  Claim C9. Toggling the same key twice gives back the selected-key set: the keys of the
  selection are the same as before. For a key that is not empty, one toggle removes the
  key when it is selected and adds it otherwise; \<open>toggleGroup\<close> ignores the empty key.
  (A key that was selected is added again at the end of the set's iteration order, which
  nothing in the viewer reads.)
\<close>

theorem toggleGroup_involution:
  "set (selectedGroupKeys (toggleGroup k (toggleGroup k st))) = set (selectedGroupKeys st)
   \<and> (k \<noteq> [] \<longrightarrow>
        set (selectedGroupKeys (toggleGroup k st)) =
          (if k \<in> set (selectedGroupKeys st) then set (selectedGroupKeys st) - {k}
           else insert k (set (selectedGroupKeys st))))"
  by (auto simp: toggleGroup_def set_has_def)

text \<open>Claim C9 at the selection \<open>{a, b}\<close>, for a selected and for an unselected key.\<close>

theorem toggleGroup_involution_witness:
  "set (selectedGroupKeys (toggleGroup (str ''b'')
          (toggleGroup (str ''b'') (initialViewer\<lparr>selectedGroupKeys := [str ''a'', str ''b'']\<rparr>))))
     = {str ''a'', str ''b''}
   \<and> set (selectedGroupKeys
          (toggleGroup (str ''b'') (initialViewer\<lparr>selectedGroupKeys := [str ''a'', str ''b'']\<rparr>)))
     = {str ''a''}
   \<and> set (selectedGroupKeys
          (toggleGroup (str ''c'') (initialViewer\<lparr>selectedGroupKeys := [str ''a'', str ''b'']\<rparr>)))
     = {str ''a'', str ''b'', str ''c''}"
proof -
  let ?st = "initialViewer\<lparr>selectedGroupKeys := [str ''a'', str ''b'']\<rparr>"
  have s: "set (selectedGroupKeys ?st) = {str ''a'', str ''b''}" by simp
  have ne: "str ''b'' \<noteq> []" "str ''c'' \<noteq> []" by (simp_all add: str_def)
  have b: "str ''b'' \<in> {str ''a'', str ''b''}" by simp
  have c: "str ''c'' \<notin> {str ''a'', str ''b''}" by (simp add: str_def)
  have d: "{str ''a'', str ''b''} - {str ''b''} = {str ''a''}" by (auto simp: str_def)
  have e: "insert (str ''c'') {str ''a'', str ''b''} = {str ''a'', str ''b'', str ''c''}" by auto
  note tb = toggleGroup_involution[of "str ''b''" ?st]
  note tc = toggleGroup_involution[of "str ''c''" ?st]
  from tb have 1: "set (selectedGroupKeys (toggleGroup (str ''b'') (toggleGroup (str ''b'') ?st)))
                   = {str ''a'', str ''b''}"
    unfolding s by (rule conjunct1)
  from tb ne(1) have 2: "set (selectedGroupKeys (toggleGroup (str ''b'') ?st)) = {str ''a''}"
    unfolding s using d by simp
  from tc ne(2) have 3: "set (selectedGroupKeys (toggleGroup (str ''c'') ?st))
                         = {str ''a'', str ''b'', str ''c''}"
    unfolding s using c by auto
  from 1 2 3 show ?thesis by (intro conjI)
qed

lemma set_expandInto:
  assumes "\<forall>(k, g) \<in> set idx. meshKeys g \<noteq> []"
  shows "set (expandInto idx out sel) = set out \<union> (\<Union>gk \<in> set sel. memberSetOf idx gk)"
  using assms
proof (induction sel arbitrary: out)
  case Nil
  then show ?case by simp
next
  case (Cons gk gks)
  show ?case
  proof (cases "map_of idx gk")
    case None
    with Cons show ?thesis by (auto simp: memberSetOf_def)
  next
    case (Some g)
    then have "(gk, g) \<in> set idx" by (rule map_of_SomeD)
    with Cons.prems have "meshKeys g \<noteq> []" by auto
    with Some Cons show ?thesis by (auto simp: memberSetOf_def)
  qed
qed

text \<open>
  Claim C5. The expanded mesh-key set is the union, over the selected keys, of the member
  set of the key's group, or of the key alone when it has no group. Every group of a
  group index has a member (its own key; see \<open>buildGroupIndex_members_keyed\<close> below), which
  is the hypothesis.
\<close>

theorem computeSelectedMeshKeys_union:
  assumes "\<forall>(k, g) \<in> set idx. meshKeys g \<noteq> []"
  shows "set (computeSelectedMeshKeys idx sel) = (\<Union>gk \<in> set sel. memberSetOf idx gk)"
  using set_expandInto[OF assms, of "[]" sel] by (simp add: computeSelectedMeshKeys_def)

text \<open>
  Claim C5 for groups with the member sets \<open>{m1, m2}\<close> and \<open>{m2, m3}\<close>, and for a key
  without a group.
\<close>

theorem computeSelectedMeshKeys_union_witness:
  "set (computeSelectedMeshKeys exampleGroups [str ''a'', str ''b''])
     = {str ''m1'', str ''m2'', str ''m3''}
   \<and> set (computeSelectedMeshKeys exampleGroups [str ''a'', str ''zz''])
       = {str ''m1'', str ''m2'', str ''zz''}"
proof -
  have h: "\<forall>(k, g) \<in> set exampleGroups. meshKeys g \<noteq> []"
    by (simp add: exampleGroups_def)
  have a: "(\<Union>gk \<in> set [str ''a'', str ''b'']. memberSetOf exampleGroups gk) = {str ''m1'', str ''m2'', str ''m3''}"
    by (auto simp: memberSetOf_def exampleGroups_def str_def)
  have b: "(\<Union>gk \<in> set [str ''a'', str ''zz'']. memberSetOf exampleGroups gk) = {str ''m1'', str ''m2'', str ''zz''}"
    by (auto simp: memberSetOf_def exampleGroups_def str_def)
  from computeSelectedMeshKeys_union[OF h, of "[str ''a'', str ''b'']"]
       computeSelectedMeshKeys_union[OF h, of "[str ''a'', str ''zz'']"] a b
  show ?thesis by simp
qed

section \<open>The group index\<close>

lemma set_addRawNames:
  "set (addRawNames H ms raws) =
   set ms \<union> set (filter (\<lambda>mk. mk \<noteq> []) (map (\<lambda>raw. slugify H (rawText raw)) raws))"
  by (induction raws arbitrary: ms) (auto simp: Let_def)

lemma set_addVariants:
  "set (addVariants H ms vs) =
   set ms \<union> set (filter (\<lambda>mk. mk \<noteq> []) (map (\<lambda>raw. slugify H (rawText raw))
     (concat (map (\<lambda>(tag, arr). case arr of RawNames rs \<Rightarrow> rs | NotAnArray \<Rightarrow> []) vs))))"
  by (induction H ms vs rule: addVariants.induct) (auto simp: set_addRawNames)

lemma set_entryMeshKeys: "set (entryMeshKeys H k v) = insert k (variantKeys H v)"
proof (cases "variants v")
  case None
  then show ?thesis by (simp add: entryMeshKeys_def variantKeys_def rawNamesOf_def)
next
  case (Some vs)
  then show ?thesis
    by (simp add: entryMeshKeys_def variantKeys_def rawNamesOf_def set_addVariants)
qed

lemma entryMeshKeys_nonempty: "entryMeshKeys H k v \<noteq> []"
proof -
  have "k \<in> set (entryMeshKeys H k v)" by (simp add: set_entryMeshKeys)
  then show ?thesis by auto
qed

lemma mergeInto_keys [simp]: "map fst (mergeInto k mks idx) = map fst idx"
  by (induction idx) auto

lemma membersOf_mergeInto:
  "membersOf (mergeInto k mks idx) k' =
   (if k' = k \<and> map_of idx k \<noteq> None then membersOf idx k \<union> set mks else membersOf idx k')"
  by (induction idx) (auto simp: membersOf_def)

lemma membersOf_append_new:
  "map_of idx k = None \<Longrightarrow>
   membersOf (idx @ [(k, g)]) k' = (if k' = k then set (meshKeys g) else membersOf idx k')"
  by (auto simp: membersOf_def map_add_def split: option.splits)

lemma membersOf_addEntry:
  "membersOf (addEntry H idx e) k =
   membersOf idx k \<union> (if entryKey H e = k \<and> k \<noteq> [] then insert k (variantKeys H (snd e)) else {})"
proof (cases "entryKey H e = []")
  case True
  then show ?thesis by (auto simp: addEntry_def entryKey_def Let_def)
next
  case False
  let ?gk = "entryKey H e"
  show ?thesis
  proof (cases "map_of idx ?gk")
    case None
    have "addEntry H idx e =
          idx @ [(?gk, \<lparr>key = ?gk, name = displayName (fst e) (snd e),
                         meshKeys = entryMeshKeys H ?gk (snd e)\<rparr>)]"
      using False None by (simp add: addEntry_def entryKey_def Let_def)
    then show ?thesis
      using None False by (simp add: membersOf_append_new set_entryMeshKeys) (simp add: membersOf_def)
  next
    case (Some g)
    have "addEntry H idx e = mergeInto ?gk (entryMeshKeys H ?gk (snd e)) idx"
      using False Some by (simp add: addEntry_def entryKey_def Let_def)
    then show ?thesis
      using Some False by (auto simp: membersOf_mergeInto set_entryMeshKeys)
  qed
qed

lemma keys_addEntry:
  "set (map fst (addEntry H idx e)) = set (map fst idx) \<union> ({entryKey H e} - {[]})"
proof (cases "entryKey H e = []")
  case True
  then show ?thesis by (auto simp: addEntry_def entryKey_def Let_def)
next
  case False
  let ?gk = "entryKey H e"
  show ?thesis
  proof (cases "map_of idx ?gk")
    case None
    with False show ?thesis by (auto simp: addEntry_def entryKey_def Let_def)
  next
    case (Some g)
    then have "?gk \<in> fst ` set idx" by (metis map_of_eq_None_iff option.distinct(1))
    with Some False show ?thesis by (auto simp: addEntry_def entryKey_def Let_def)
  qed
qed

lemma distinct_addEntry: "distinct (map fst idx) \<Longrightarrow> distinct (map fst (addEntry H idx e))"
  by (auto simp: addEntry_def Let_def map_of_eq_None_iff)



lemma foldl_addEntry_members:
  "membersOf (foldl (addEntry H) idx es) k =
   membersOf idx k \<union> (\<Union>e \<in> {e \<in> set es. entryKey H e = k \<and> k \<noteq> []}. insert k (variantKeys H (snd e)))"
proof (induction es arbitrary: idx)
  case Nil
  then show ?case by simp
next
  case (Cons e es)
  have "membersOf (foldl (addEntry H) idx (e # es)) k =
        membersOf (addEntry H idx e) k
        \<union> (\<Union>e \<in> {e \<in> set es. entryKey H e = k \<and> k \<noteq> []}. insert k (variantKeys H (snd e)))"
    using Cons.IH[of "addEntry H idx e"] by simp
  also have "\<dots> = membersOf idx k
        \<union> (\<Union>e \<in> {e' \<in> set (e # es). entryKey H e' = k \<and> k \<noteq> []}. insert k (variantKeys H (snd e)))"
    unfolding membersOf_addEntry by (cases e) auto
  finally show ?case .
qed

lemma foldl_addEntry_keys:
  "set (map fst (foldl (addEntry H) idx es)) = set (map fst idx) \<union> (entryKey H ` set es - {[]})"
proof (induction es arbitrary: idx)
  case Nil
  then show ?case by simp
next
  case (Cons e es)
  have "set (map fst (foldl (addEntry H) idx (e # es))) =
        set (map fst (addEntry H idx e)) \<union> (entryKey H ` set es - {[]})"
    using Cons.IH[of "addEntry H idx e"] by simp
  then show ?case unfolding keys_addEntry by auto
qed

lemma foldl_addEntry_distinct:
  "distinct (map fst idx) \<Longrightarrow> distinct (map fst (foldl (addEntry H) idx es))"
  by (induction es arbitrary: idx) (simp_all add: distinct_addEntry)


lemma membersOf_in:
  "distinct (map fst idx) \<Longrightarrow> (k, g) \<in> set idx \<Longrightarrow> membersOf idx k = set (meshKeys g)"
  by (simp add: membersOf_def)

lemma buildGroupIndex_distinct: "distinct (map fst (buildGroupIndex H groupsJson))"
  unfolding buildGroupIndex_def by (rule foldl_addEntry_distinct) simp

lemma buildGroupIndex_keys:
  "fst ` set (buildGroupIndex H groupsJson) = entryKey H ` set groupsJson - {[]}"
  using foldl_addEntry_keys[where idx="[]" and es=groupsJson and H=H] by (simp add: buildGroupIndex_def)


lemma buildGroupIndex_key_nonempty:
  assumes "(k, g) \<in> set (buildGroupIndex H groupsJson)"
  shows "k \<noteq> []" "k \<in> entryKey H ` set groupsJson"
proof -
  from assms have "k \<in> fst ` set (buildGroupIndex H groupsJson)" by force
  then show "k \<noteq> []" "k \<in> entryKey H ` set groupsJson"
    unfolding buildGroupIndex_keys by simp_all
qed

lemma buildGroupIndex_members:
  assumes kg: "(k, g) \<in> set (buildGroupIndex H groupsJson)"
  shows "set (meshKeys g) =
         insert k (\<Union>e \<in> {e \<in> set groupsJson. entryKey H e = k}. variantKeys H (snd e))"
proof -
  let ?idx = "buildGroupIndex H groupsJson"
  from buildGroupIndex_key_nonempty[OF kg]
  obtain e where e: "e \<in> set groupsJson" "entryKey H e = k" and ne: "k \<noteq> []" by auto
  have "set (meshKeys g) = membersOf ?idx k"
    using membersOf_in[OF buildGroupIndex_distinct kg] by simp
  also have "\<dots> = (\<Union>e \<in> {e \<in> set groupsJson. entryKey H e = k \<and> k \<noteq> []}.
                    insert k (variantKeys H (snd e)))"
    using foldl_addEntry_members[where idx="[]" and es=groupsJson and H=H and k=k]
    by (simp add: buildGroupIndex_def membersOf_def)
  also have "\<dots> = insert k (\<Union>e \<in> {e \<in> set groupsJson. entryKey H e = k}. variantKeys H (snd e))"
    using e ne by blast
  finally show ?thesis .
qed

lemma buildGroupIndex_members_keyed:
  assumes kg: "(k, g) \<in> set (buildGroupIndex H groupsJson)"
  shows "meshKeys g \<noteq> []" "[] \<notin> set (meshKeys g)"
proof -
  have ne: "k \<noteq> []" using buildGroupIndex_key_nonempty(1)[OF kg] .
  have s: "set (meshKeys g) =
      insert k (\<Union>e \<in> {e \<in> set groupsJson. entryKey H e = k}. variantKeys H (snd e))"
    using buildGroupIndex_members[OF kg] .
  have "k \<in> set (meshKeys g)" unfolding s by simp
  then show "meshKeys g \<noteq> []" by auto
  have "[] \<notin> variantKeys H v" for v by (simp add: variantKeys_def)
  then show "[] \<notin> set (meshKeys g)" unfolding s using ne by auto
qed





end
